theory Spec2Isabelle
  imports Main "HOL-Library.Word"
begin

section \<open>Data model of \<^verbatim>\<open>src/lib/nostr.ts\<close>\<close>

text \<open>
  The module is glue code over collaborators that are not part of the repository:
  the nostr-tools library, the browser (\<^verbatim>\<open>sessionStorage\<close>, \<^verbatim>\<open>window.nostr\<close>,
  \<^verbatim>\<open>fetch\<close>, \<^verbatim>\<open>URL\<close>, clipboard, \<^verbatim>\<open>alert\<close>) and the relay pool.  Each collaborator
  is a field of the record \<open>env\<close>; everything the module mutates or emits is a field of
  the record \<open>world\<close>, passed in and returned.  A rejected promise or a thrown exception
  is the \<open>Inl\<close> of a sum.
\<close>

type_synonym byte = "8 word"

text \<open>
  The errors the module itself creates are named by their \<^verbatim>\<open>error.name\<close>
  (\<^verbatim>\<open>ProfileMetadata\<close>, \<^verbatim>\<open>ZapEndpoint\<close>, \<^verbatim>\<open>InvoiceRequest\<close>);
  \<open>TypeError\<close> is the JavaScript runtime error of reading a property of \<^verbatim>\<open>null\<close> or
  \<^verbatim>\<open>undefined\<close>; \<open>Thrown msg\<close> is an exception raised by a collaborator.
\<close>

datatype error = TypeError | ProfileMetadata | ZapEndpoint | InvoiceRequest | Thrown string

text \<open>The value of the store: \<^verbatim>\<open>{ privkey?: string; pubkey: string } | null\<close>.\<close>

record keys =
  privkey :: "string option"
  pubkey :: string

record event_template =
  kind :: int
  content :: string
  created_at :: int
  tags :: "string list list"

record unsigned_event = event_template +
  ev_pubkey :: string

record event = unsigned_event +
  ev_id :: string
  ev_sig :: string

text \<open>
  The external signer capability \<^verbatim>\<open>window.nostr\<close>, each call with its outcome: the
  value the promise resolves to, or the exception it throws or rejects with.  A promise
  that never settles is outside the model.
\<close>

record signer =
  nostr_getPublicKey :: "error + string"
  nostr_signEvent :: "unsigned_event \<Rightarrow> error + event"
  nostr_nip04_encrypt :: "string \<Rightarrow> string \<Rightarrow> error + string"
  nostr_nip04_decrypt :: "string \<Rightarrow> string \<Rightarrow> error + string"

record nostr_filter =
  kinds :: "int list"
  authors :: "string list"
  limit :: nat

text \<open>A \<^verbatim>\<open>fetch\<close> response: the HTTP status and the outcome of \<^verbatim>\<open>.json()\<close>.\<close>

record response =
  status :: nat
  json :: "error + string"

definition ok :: "response \<Rightarrow> bool" where
  "ok r = (200 \<le> status r \<and> status r \<le> 299)"

record url =
  protocol :: string
  host :: string
  pathname :: string
  searchParams :: "(string \<times> string) list"

text \<open>
  The collaborators.  \<open>navigator_clipboard\<close> tells whether \<^verbatim>\<open>navigator.clipboard\<close> is
  defined, which it is only in a secure context; \<open>generateSecretKey\<close> takes the
  number of keys generated before, and \<open>relayPool_get\<close> the number of queries made
  before, so that their answers may change from call to call.
\<close>

record env =
  window_nostr :: "signer option"
  navigator_clipboard :: bool
  getPublicKey :: "byte list \<Rightarrow> error + string"
  generateSecretKey :: "nat \<Rightarrow> byte list"
  nip04_encrypt :: "string \<Rightarrow> string \<Rightarrow> string \<Rightarrow> error + string"
  nip04_decrypt :: "string \<Rightarrow> string \<Rightarrow> string \<Rightarrow> error + string"
  finalizeEvent :: "event_template \<Rightarrow> byte list \<Rightarrow> error + event"
  Date_now :: int
  relayPool_get :: "nat \<Rightarrow> string list \<Rightarrow> nostr_filter \<Rightarrow> error + event option"
  nip19_decode :: "string \<Rightarrow> error + string"
  getZapEndpoint :: "event \<Rightarrow> error + string option"
  URL_parse :: "string \<Rightarrow> error + url"
  JSON_stringify :: "event_template \<Rightarrow> string"
  fetch :: "string \<Rightarrow> error + response"

text \<open>
  \<open>sessionStorage\<close> is the item \<^verbatim>\<open>'private-key'\<close>; \<open>store\<close> and \<open>profilesMetadata\<close> are
  the module's variables.  The other fields record what the module did: calls of
  \<^verbatim>\<open>generateSecretKey\<close>, clipboard writes, alerts, \<^verbatim>\<open>console.error\<close> lines, the
  authors asked of the relay pool, the URLs fetched and the calls of \<^verbatim>\<open>.json()\<close>.
\<close>

record world =
  sessionStorage :: "string option"
  store :: "keys option"
  profilesMetadata :: "event list"
  keygen_calls :: nat
  clipboard :: "string list"
  alerts :: "string list"
  console_errors :: "(string \<times> error) list"
  relay_queries :: "string list"
  http_requests :: "string list"
  json_calls :: nat

definition relayList :: "string list" where
  "relayList =
    [''wss://nostr-pub.wellorder.net'', ''wss://relay.nostr.band'', ''wss://relay.damus.io'',
     ''wss://nostr.fmt.wiz.biz'', ''wss://offchain.pub'', ''wss://relay.current.fyi'',
     ''wss://nos.lol'']"

section \<open>Strings, numbers and bytes\<close>

text \<open>
  A JavaScript string is the list of its code units, and \<open>length\<close> is its
  \<^verbatim>\<open>length\<close>.  A \<open>char\<close> is a code unit below 256; strings with higher code units
  are outside the model.  A string is truthy when it is not empty.
\<close>

definition truthy :: "string \<Rightarrow> bool" where
  "truthy s = (s \<noteq> [])"

definition hex_val :: "char \<Rightarrow> nat option" where
  "hex_val c =
    (let n = (of_char c :: nat) in
     if 48 \<le> n \<and> n \<le> 57 then Some (n - 48)
     else if 97 \<le> n \<and> n \<le> 102 then Some (n - 87)
     else if 65 \<le> n \<and> n \<le> 70 then Some (n - 55)
     else None)"

definition hex_num :: "char \<Rightarrow> nat" where
  "hex_num c = (case hex_val c of None \<Rightarrow> 0 | Some v \<Rightarrow> v)"

text \<open>
  \<^verbatim>\<open>parseInt(s, 16)\<close>, with \<open>None\<close> for \<^verbatim>\<open>NaN\<close>: leading white space is dropped, then
  one sign, then a prefix \<^verbatim>\<open>0x\<close> or \<^verbatim>\<open>0X\<close>; the longest run of hexadecimal digits
  that follows is the value, and an empty run is \<^verbatim>\<open>NaN\<close>.  The white space below 256
  is tab, line feed, vertical tab, form feed, carriage return, space and no-break
  space.
\<close>

definition StrWhiteSpaceChar :: "char \<Rightarrow> bool" where
  "StrWhiteSpaceChar c =
    (let n = (of_char c :: nat)
     in n = 9 \<or> n = 10 \<or> n = 11 \<or> n = 12 \<or> n = 13 \<or> n = 32 \<or> n = 160)"

fun strip_sign :: "string \<Rightarrow> int \<times> string" where
  "strip_sign [] = (1, [])"
| "strip_sign (c # cs) =
    (if c = CHR ''-'' then (- 1, cs) else if c = CHR ''+'' then (1, cs) else (1, c # cs))"

fun strip_0x :: "string \<Rightarrow> string" where
  "strip_0x (a # b # cs) =
    (if a = CHR ''0'' \<and> (b = CHR ''x'' \<or> b = CHR ''X'') then cs else a # b # cs)"
| "strip_0x cs = cs"

definition parseInt16 :: "string \<Rightarrow> int option" where
  "parseInt16 s =
    (case strip_sign (dropWhile StrWhiteSpaceChar s) of
       (sign, S) \<Rightarrow>
         (let Z = takeWhile (\<lambda>c. hex_val c \<noteq> None) (strip_0x S)
          in if Z = [] then None
             else Some (sign * int (foldl (\<lambda>n c. 16 * n + hex_num c) 0 Z))))"

text \<open>
  \<^verbatim>\<open>Buffer.from(s, 'hex')\<close> of the package \<^verbatim>\<open>buffer\<close>, which the module imports and a
  browser bundle resolves to.  It never throws.  It reads \<^verbatim>\<open>s.length >>> 1\<close> pairs of
  code units, each with \<^verbatim>\<open>parseInt(pair, 16)\<close>, stores the value as a byte (modulo
  256), and stops at the first pair that reads as \<^verbatim>\<open>NaN\<close>; the buffer is cut there.
  A last single code unit is never read.
\<close>

fun Buffer_from_hex :: "string \<Rightarrow> byte list" where
  "Buffer_from_hex (a # b # cs) =
    (case parseInt16 [a, b] of
       None \<Rightarrow> []
     | Some parsed \<Rightarrow> of_int parsed # Buffer_from_hex cs)"
| "Buffer_from_hex cs = []"

definition hex_digit :: "nat \<Rightarrow> char" where
  "hex_digit n = ''0123456789abcdef'' ! (n mod 16)"

text \<open>\<^verbatim>\<open>Buffer.from(bytes).toString('hex')\<close>.\<close>

definition Buffer_toString_hex :: "byte list \<Rightarrow> string" where
  "Buffer_toString_hex bs =
    concat (map (\<lambda>b. [hex_digit (unat b div 16), hex_digit (unat b mod 16)]) bs)"

text \<open>
  A number is modelled as an integer.  That is exact for the integer amounts whose
  product with 1000 stays below \<open>2 ^ 53\<close> in absolute value: there the product of
  doubles is the product of integers, \<^verbatim>\<open>Math.floor\<close> changes nothing and \<^verbatim>\<open>toString\<close>
  is the decimal numeral.  Fractional and larger amounts are outside the model.
\<close>

fun digits :: "nat \<Rightarrow> string" where
  "digits n = (if n < 10 then [hex_digit n] else digits (n div 10) @ [hex_digit (n mod 10)])"

declare digits.simps [simp del]

definition Number_toString :: "int \<Rightarrow> string" where
  "Number_toString i = (if i < 0 then CHR ''-'' # digits (nat (- i)) else digits (nat i))"

fun join :: "string \<Rightarrow> string list \<Rightarrow> string" where
  "join sep [] = []"
| "join sep [x] = x"
| "join sep (x # y # ys) = x @ sep @ join sep (y # ys)"

text \<open>The string a \<^verbatim>\<open>Uint8Array\<close> turns into inside a template literal.\<close>

definition Uint8Array_toString :: "byte list \<Rightarrow> string" where
  "Uint8Array_toString bs = join '','' (map (\<lambda>b. Number_toString (int (unat b))) bs)"

section \<open>The session: \<^verbatim>\<open>nostrAuth\<close>\<close>

text \<open>
  \<^verbatim>\<open>store.set(v)\<close> runs the subscriber of line 44, which writes the slot only when the
  new value carries a truthy \<^verbatim>\<open>privkey\<close>.
\<close>

definition persist :: "keys option \<Rightarrow> world \<Rightarrow> world" where
  "persist v w =
    (case v of
       None \<Rightarrow> w
     | Some k \<Rightarrow> (case privkey k of
         None \<Rightarrow> w
       | Some p \<Rightarrow> if truthy p then w\<lparr>sessionStorage := Some p\<rparr> else w))"

definition store_set :: "keys option \<Rightarrow> world \<Rightarrow> world" where
  "store_set v w = persist v (w\<lparr>store := v\<rparr>)"

text \<open>
  Module initialisation (lines 33 to 46): the store starts from the slot, then the
  subscriber is registered and runs once with the initial value.
\<close>

definition nostrAuth_init :: "env \<Rightarrow> world \<Rightarrow> error + world" where
  "nostrAuth_init e w =
    (case sessionStorage w of
       None \<Rightarrow> Inr (persist None (w\<lparr>store := None\<rparr>))
     | Some initialPrivateKey \<Rightarrow>
         if truthy initialPrivateKey then
           (case getPublicKey e (Buffer_from_hex initialPrivateKey) of
              Inl err \<Rightarrow> Inl err
            | Inr pk \<Rightarrow>
                Inr (store_set (Some \<lparr>privkey = Some initialPrivateKey, pubkey = pk\<rparr>) w))
         else Inr (persist None (w\<lparr>store := None\<rparr>)))"

text \<open>
  A process restart: the slot and the record of past effects stay, the module's
  variables start afresh.
\<close>

definition restart :: "env \<Rightarrow> world \<Rightarrow> error + world" where
  "restart e w = nostrAuth_init e (w\<lparr>store := None, profilesMetadata := []\<rparr>)"

definition clipboard_text :: "byte list \<Rightarrow> string \<Rightarrow> string" where
  "clipboard_text sk pk =
    ''private key: '' @ Uint8Array_toString sk @ [CHR 0x0A] @ ''public key: '' @ pk"

definition alert_text :: string where
  "alert_text = ''Using a nostr extension such as getalby.com is recommended, but a keypair was copied to your clipboard so you can try out PLS without it''"

text \<open>
  \<^verbatim>\<open>loginWithRandomKeys\<close> (lines 48 to 68).  The key is generated and its public key
  derived, which may throw.  Line 53 then reads \<^verbatim>\<open>navigator.clipboard.writeText\<close>:
  where \<^verbatim>\<open>navigator.clipboard\<close> is undefined (a page outside a secure context) that
  is a \<open>TypeError\<close>, before the alert and before \<^verbatim>\<open>store.set\<close>.  Otherwise the text is
  written to the clipboard (the promise of \<^verbatim>\<open>writeText\<close> is not awaited, so its
  outcome reaches nobody), the alert is shown and the store is set.
\<close>

definition loginWithRandomKeys :: "env \<Rightarrow> world \<Rightarrow> (error + bool) \<times> world" where
  "loginWithRandomKeys e w =
    (let sk = generateSecretKey e (keygen_calls w);
         w1 = w\<lparr>keygen_calls := Suc (keygen_calls w)\<rparr>;
         privkeyStr = Buffer_toString_hex sk
     in case getPublicKey e sk of
          Inl err \<Rightarrow> (Inl err, w1)
        | Inr pk \<Rightarrow>
            if \<not> navigator_clipboard e then (Inl TypeError, w1)
            else
              (Inr True,
               store_set (Some \<lparr>privkey = Some privkeyStr, pubkey = pk\<rparr>)
                 (w1\<lparr>clipboard := clipboard w1 @ [clipboard_text sk pk],
                     alerts := alerts w1 @ [alert_text]\<rparr>)))"

definition nostrNowBasic :: "env \<Rightarrow> int" where
  "nostrNowBasic e = Date_now e div 1000"

definition makeNostrEvent :: "env \<Rightarrow> string \<Rightarrow> int \<Rightarrow> string \<Rightarrow> string list list \<Rightarrow> error + event" where
  "makeNostrEvent e pk k c ts =
    finalizeEvent e \<lparr>kind = k, content = c, created_at = nostrNowBasic e, tags = ts\<rparr>
      (Buffer_from_hex pk)"

definition signOut :: "world \<Rightarrow> world" where
  "signOut w = (store_set None w)\<lparr>sessionStorage := None\<rparr>"

definition loginWithPrivkey :: "env \<Rightarrow> string \<Rightarrow> world \<Rightarrow> (error + unit) \<times> world" where
  "loginWithPrivkey e pkey w =
    (case getPublicKey e (Buffer_from_hex pkey) of
       Inl err \<Rightarrow> (Inl err, w)
     | Inr pk \<Rightarrow> (Inr (), store_set (Some \<lparr>privkey = Some pkey, pubkey = pk\<rparr>) w))"

text \<open>\<^verbatim>\<open>get(store)?.pubkey\<close> and \<^verbatim>\<open>get(store)?.privkey\<close>, as truth values.\<close>

definition has_pubkey :: "keys option \<Rightarrow> bool" where
  "has_pubkey v = (case v of None \<Rightarrow> False | Some k \<Rightarrow> truthy (pubkey k))"

definition get_privkey :: "keys option \<Rightarrow> string option" where
  "get_privkey v =
    (case v of
       None \<Rightarrow> None
     | Some k \<Rightarrow> (case privkey k of None \<Rightarrow> None | Some p \<Rightarrow> if truthy p then Some p else None))"

definition tryLogin :: "env \<Rightarrow> world \<Rightarrow> (error + bool) \<times> world" where
  "tryLogin e w =
    (if has_pubkey (store w) then (Inr True, w)
     else case window_nostr e of
            None \<Rightarrow> loginWithRandomKeys e w
          | Some n \<Rightarrow> (case nostr_getPublicKey n of
              Inl err \<Rightarrow> loginWithRandomKeys e w
            | Inr pk \<Rightarrow> (Inr True, store_set (Some \<lparr>privkey = None, pubkey = pk\<rparr>) w)))"

definition encryptDM :: "env \<Rightarrow> string \<Rightarrow> string \<Rightarrow> world \<Rightarrow> error + string" where
  "encryptDM e otherPubkey text w =
    (case get_privkey (store w) of
       Some p \<Rightarrow> nip04_encrypt e p otherPubkey text
     | None \<Rightarrow> (case window_nostr e of
         None \<Rightarrow> Inl TypeError
       | Some n \<Rightarrow> nostr_nip04_encrypt n otherPubkey text))"

definition decryptDM :: "env \<Rightarrow> string \<Rightarrow> string \<Rightarrow> world \<Rightarrow> error + string" where
  "decryptDM e otherPubkey text w =
    (case get_privkey (store w) of
       Some p \<Rightarrow> nip04_decrypt e p otherPubkey text
     | None \<Rightarrow> (case window_nostr e of
         None \<Rightarrow> Inl TypeError
       | Some n \<Rightarrow> nostr_nip04_decrypt n otherPubkey text))"

text \<open>
  \<^verbatim>\<open>makeEvent\<close> destructures \<^verbatim>\<open>get(store)!\<close>: on \<^verbatim>\<open>null\<close> that is a \<open>TypeError\<close>,
  before anything else runs.
\<close>

definition makeEvent :: "env \<Rightarrow> int \<Rightarrow> string \<Rightarrow> string list list \<Rightarrow> world \<Rightarrow> error + event" where
  "makeEvent e k c ts w =
    (case store w of
       None \<Rightarrow> Inl TypeError
     | Some ks \<Rightarrow> (case get_privkey (Some ks) of
         Some p \<Rightarrow> makeNostrEvent e p k c ts
       | None \<Rightarrow> (case window_nostr e of
           None \<Rightarrow> Inl TypeError
         | Some n \<Rightarrow>
             nostr_signEvent n
               \<lparr>kind = k, content = c, created_at = nostrNowBasic e, tags = ts,
                ev_pubkey = pubkey ks\<rparr>)))"

section \<open>Profile metadata: \<^verbatim>\<open>getProfileMetadata\<close>\<close>

text \<open>
  The cache is scanned for the first event whose \<^verbatim>\<open>pubkey\<close> equals the key.  On a miss
  the relay pool is asked (its answer may depend on how many queries came before); an
  event is appended to the cache, \<^verbatim>\<open>null\<close> is returned as it is, and an exception is
  logged and turned into \<^verbatim>\<open>null\<close>.  \<open>Metadata\<close> is kind 0.
\<close>

definition Metadata :: int where
  "Metadata = 0"

definition getProfileMetadata :: "env \<Rightarrow> string \<Rightarrow> world \<Rightarrow> event option \<times> world" where
  "getProfileMetadata e publicKey w =
    (case find (\<lambda>profile. ev_pubkey profile = publicKey) (profilesMetadata w) of
       Some getFromCache \<Rightarrow> (Some getFromCache, w)
     | None \<Rightarrow>
        (let w1 = w\<lparr>relay_queries := relay_queries w @ [publicKey]\<rparr>
         in case relayPool_get e (length (relay_queries w)) relayList
                   \<lparr>kinds = [Metadata], authors = [publicKey], limit = 1\<rparr> of
              Inl err \<Rightarrow>
                (None, w1\<lparr>console_errors :=
                             console_errors w1 @ [(''Unable get profile metadata'', err)]\<rparr>)
            | Inr None \<Rightarrow> (None, w1)
            | Inr (Some metadataEvent) \<Rightarrow>
                (Some metadataEvent,
                 w1\<lparr>profilesMetadata := profilesMetadata w1 @ [metadataEvent]\<rparr>)))"

section \<open>The zap invoice: \<^verbatim>\<open>createInvoice\<close>\<close>

text \<open>
  Modelled from the spec: \<^verbatim>\<open>makeZapRequest\<close> of nostr-tools/nip57 is not in the
  sources.  The spec has it build an unsigned event that embeds the recipient, the
  target event id, the amount, the relay list and the comment, each as it is given;
  the library does so in the tags \<^verbatim>\<open>p\<close>, \<^verbatim>\<open>amount\<close>, \<^verbatim>\<open>relays\<close> and \<^verbatim>\<open>e\<close> of an
  event of kind 9734, and refuses a missing amount or profile.
\<close>

definition makeZapRequest ::
  "int \<Rightarrow> string \<Rightarrow> string \<Rightarrow> int \<Rightarrow> string list \<Rightarrow> string \<Rightarrow> error + event_template" where
  "makeZapRequest now profile ev amount relays comment =
    (if amount = 0 then Inl (Thrown ''amount not given'')
     else if \<not> truthy profile then Inl (Thrown ''profile not given'')
     else Inr \<lparr>kind = 9734, content = comment, created_at = (now + 500) div 1000,
               tags = [[''p'', profile], [''amount'', Number_toString amount], ''relays'' # relays]
                      @ (if truthy ev then [[''e'', ev]] else [])\<rparr>)"

text \<open>
  A JavaScript object with string values, in insertion order.  Its own keys are
  enumerated with the array indices first, in ascending order, then the other keys as
  inserted.
\<close>

type_synonym obj = "(string \<times> string) list"

fun obj_put :: "string \<Rightarrow> string \<Rightarrow> obj \<Rightarrow> obj" where
  "obj_put k v [] = [(k, v)]"
| "obj_put k v ((k', v') # ps) = (if k' = k then (k, v) # ps else (k', v') # obj_put k v ps)"

definition is_digit :: "char \<Rightarrow> bool" where
  "is_digit c = (48 \<le> (of_char c :: nat) \<and> (of_char c :: nat) \<le> 57)"

definition nat_of_digits :: "string \<Rightarrow> nat" where
  "nat_of_digits s = foldl (\<lambda>n c. 10 * n + ((of_char c :: nat) - 48)) 0 s"

definition is_index_key :: "string \<Rightarrow> bool" where
  "is_index_key s =
    (s \<noteq> [] \<and> list_all is_digit s \<and> (s = ''0'' \<or> hd s \<noteq> CHR ''0'') \<and>
     nat_of_digits s < 2 ^ 32 - 1)"

definition Object_fromEntries :: "(string \<times> string) list \<Rightarrow> obj" where
  "Object_fromEntries ps = foldl (\<lambda>ob (k, v). obj_put k v ob) [] ps"

definition Object_entries :: "obj \<Rightarrow> (string \<times> string) list" where
  "Object_entries ob =
    sort_key (\<lambda>(k, v). nat_of_digits k) (filter (\<lambda>(k, v). is_index_key k) ob)
    @ filter (\<lambda>(k, v). \<not> is_index_key k) ob"

text \<open>
  \<^verbatim>\<open>URLSearchParams.toString()\<close>: the application/x-www-form-urlencoded serialiser.
  Letters, digits and \<^verbatim>\<open>*-._\<close> stay, a space becomes \<^verbatim>\<open>+\<close>, and every other code unit
  is percent-encoded byte by byte in UTF-8: one byte below 128, two bytes from 128 to
  255.
\<close>

definition HEX_digit :: "nat \<Rightarrow> char" where
  "HEX_digit n = ''0123456789ABCDEF'' ! (n mod 16)"

definition percent_byte :: "nat \<Rightarrow> string" where
  "percent_byte n = [CHR ''%'', HEX_digit (n div 16), HEX_digit (n mod 16)]"

definition form_urlencode_char :: "char \<Rightarrow> string" where
  "form_urlencode_char c =
    (let n = (of_char c :: nat) in
     if (48 \<le> n \<and> n \<le> 57) \<or> (65 \<le> n \<and> n \<le> 90) \<or> (97 \<le> n \<and> n \<le> 122)
        \<or> n = 42 \<or> n = 45 \<or> n = 46 \<or> n = 95 then [c]
     else if n = 32 then ''+''
     else if n < 128 then percent_byte n
     else percent_byte (192 + n div 64) @ percent_byte (128 + n mod 64))"

definition form_urlencode :: "string \<Rightarrow> string" where
  "form_urlencode s = concat (map form_urlencode_char s)"

definition URLSearchParams_toString :: "(string \<times> string) list \<Rightarrow> string" where
  "URLSearchParams_toString ps =
    join ''&'' (map (\<lambda>(k, v). form_urlencode k @ ''='' @ form_urlencode v) ps)"

text \<open>Lines 222 to 227: the entries of the object the parameters are built from.\<close>

definition invoice_params :: "url \<Rightarrow> string \<Rightarrow> int \<Rightarrow> string \<Rightarrow> (string \<times> string) list" where
  "invoice_params callbackUrl message amount zr =
    Object_entries
      (obj_put ''nostr'' zr
        (obj_put ''amount'' (Number_toString (amount * 1000))
          (obj_put ''comment'' message
            (Object_fromEntries (searchParams callbackUrl)))))"

text \<open>
  Lines 195 to 229, the stages before the request: the URL that will be fetched, or
  the first error.
\<close>

definition createInvoice_url ::
  "env \<Rightarrow> string \<Rightarrow> string \<Rightarrow> int \<Rightarrow> string \<Rightarrow> world \<Rightarrow> (error + string) \<times> world" where
  "createInvoice_url e destination message amount eventId w =
    (case nip19_decode e destination of
       Inl err \<Rightarrow> (Inl err, w)
     | Inr publicKey \<Rightarrow>
        (case getProfileMetadata e publicKey w of
           (None, w1) \<Rightarrow> (Inl ProfileMetadata, w1)
         | (Some profileMetadata, w1) \<Rightarrow>
            (case getZapEndpoint e profileMetadata of
               Inl err \<Rightarrow> (Inl err, w1)
             | Inr None \<Rightarrow> (Inl ZapEndpoint, w1)
             | Inr (Some zapEndpoint) \<Rightarrow>
                if \<not> truthy zapEndpoint then (Inl ZapEndpoint, w1)
                else
                 (case makeZapRequest (Date_now e) publicKey eventId amount relayList message of
                    Inl err \<Rightarrow> (Inl err, w1)
                  | Inr zapRequestEvent \<Rightarrow>
                     (case URL_parse e zapEndpoint of
                        Inl err \<Rightarrow> (Inl err, w1)
                      | Inr callbackUrl \<Rightarrow>
                         (Inr (protocol callbackUrl @ ''//'' @ host callbackUrl
                               @ pathname callbackUrl @ ''?''
                               @ URLSearchParams_toString
                                   (invoice_params callbackUrl message amount
                                      (JSON_stringify e zapRequestEvent))),
                          w1))))))"

text \<open>Lines 231 to 239: the request, the status check, the body.\<close>

definition createInvoice_try ::
  "env \<Rightarrow> string \<Rightarrow> string \<Rightarrow> int \<Rightarrow> string \<Rightarrow> world \<Rightarrow> (error + string) \<times> world" where
  "createInvoice_try e destination message amount eventId w =
    (case createInvoice_url e destination message amount eventId w of
       (Inl err, w1) \<Rightarrow> (Inl err, w1)
     | (Inr u, w1) \<Rightarrow>
        (let w2 = w1\<lparr>http_requests := http_requests w1 @ [u]\<rparr>
         in case fetch e u of
              Inl err \<Rightarrow> (Inl err, w2)
            | Inr invoiceRequest \<Rightarrow>
               if \<not> ok invoiceRequest then (Inl InvoiceRequest, w2)
               else (json invoiceRequest, w2\<lparr>json_calls := Suc (json_calls w2)\<rparr>)))"

text \<open>The \<^verbatim>\<open>catch\<close> of line 240: every error is logged and thrown again.\<close>

definition createInvoice ::
  "env \<Rightarrow> string \<Rightarrow> string \<Rightarrow> int \<Rightarrow> string \<Rightarrow> world \<Rightarrow> (error + string) \<times> world" where
  "createInvoice e destination message amount eventId w =
    (case createInvoice_try e destination message amount eventId w of
       (Inl err, w1) \<Rightarrow>
         (Inl err, w1\<lparr>console_errors := console_errors w1 @ [(''Unable to create invoice'', err)]\<rparr>)
     | (Inr invoice, w1) \<Rightarrow> (Inr invoice, w1))"

section \<open>Inputs of the claims and stand-in collaborators\<close>

text \<open>
  A valid hex secret key is 64 hexadecimal digits (32 bytes).  \<open>hex_decoding_stops\<close>
  tells whether hex decoding ends at the start of a string: it is shorter than two
  code units, or its first pair reads as \<^verbatim>\<open>NaN\<close>.
\<close>

definition valid_hex_key :: "string \<Rightarrow> bool" where
  "valid_hex_key s = (length s = 64 \<and> list_all (\<lambda>c. hex_val c \<noteq> None) s)"

fun hex_decoding_stops :: "string \<Rightarrow> bool" where
  "hex_decoding_stops (a # b # cs) = (parseInt16 [a, b] = None)"
| "hex_decoding_stops cs = True"

text \<open>
  A concrete environment for the examples: a key derivation that accepts every 32
  bytes, a signer that grants every request, a relay pool without the profile, a
  serialiser that keeps the fields of an event apart, and an invoice endpoint that
  answers 500.  \<open>demo_hex\<close> is the secret key 1.
\<close>

definition demo_hex :: string where
  "demo_hex = ''0000000000000000000000000000000000000000000000000000000000000001''"

definition demo_getPublicKey :: "byte list \<Rightarrow> error + string" where
  "demo_getPublicKey sk =
    (if length sk = 32 then Inr (''pub-'' @ Buffer_toString_hex sk)
     else Inl (Thrown ''invalid secret key''))"

definition demo_signer :: signer where
  "demo_signer =
    \<lparr>nostr_getPublicKey = Inr ''ext-pubkey'',
     nostr_signEvent = (\<lambda>u. Inr \<lparr>kind = kind u, content = content u, created_at = created_at u,
        tags = tags u, ev_pubkey = ev_pubkey u, ev_id = ''id'', ev_sig = ''sig''\<rparr>),
     nostr_nip04_encrypt = (\<lambda>p t. Inr (''ext-cipher:'' @ t)),
     nostr_nip04_decrypt = (\<lambda>p t. Inr (''ext-plain:'' @ t))\<rparr>"

definition demo_profile :: event where
  "demo_profile =
    \<lparr>kind = 0, content = ''lud16 bob@pay.example'', created_at = 1700000000, tags = [],
     ev_pubkey = ''P'', ev_id = ''m1'', ev_sig = ''s1''\<rparr>"

definition demo_url :: url where
  "demo_url =
    \<lparr>protocol = ''https:'', host = ''pay.example'', pathname = ''/cb'',
     searchParams = [(''foo'', ''1'')]\<rparr>"

definition demo_env :: env where
  "demo_env =
    \<lparr>window_nostr = None,
     navigator_clipboard = True,
     getPublicKey = demo_getPublicKey,
     generateSecretKey = (\<lambda>n. replicate 32 (of_nat (Suc n))),
     nip04_encrypt = (\<lambda>sk p t. Inr (''cipher:'' @ t)),
     nip04_decrypt = (\<lambda>sk p t. Inr (''plain:'' @ t)),
     finalizeEvent = (\<lambda>t sk. Inr \<lparr>kind = kind t, content = content t,
        created_at = created_at t, tags = tags t, ev_pubkey = ''pub'', ev_id = ''id'',
        ev_sig = ''sig''\<rparr>),
     Date_now = 1700000000000,
     relayPool_get = (\<lambda>n rs f. Inr None),
     nip19_decode = (\<lambda>d. if d = ''npub1demo'' then Inr ''P'' else Inl (Thrown ''bad prefix'')),
     getZapEndpoint = (\<lambda>ev. Inr None),
     URL_parse = (\<lambda>s. if s = ''https://pay.example/cb?foo=1'' then Inr demo_url else Inl TypeError),
     JSON_stringify = (\<lambda>t. Number_toString (kind t) @ '' '' @ content t @ '' ''
        @ join '' '' (map (join '','') (tags t))),
     fetch = (\<lambda>u. Inr \<lparr>status = 500, json = Inl (Thrown ''Unexpected token'')\<rparr>)\<rparr>"

definition world0 :: world where
  "world0 =
    \<lparr>sessionStorage = None, store = None, profilesMetadata = [], keygen_calls = 0,
     clipboard = [], alerts = [], console_errors = [], relay_queries = [],
     http_requests = [], json_calls = 0\<rparr>"


text \<open>
  The environment of the zap scenario: the relay pool has the profile of \<open>P\<close>, and the
  profile resolves to the callback \<^verbatim>\<open>https://pay.example/cb?foo=1\<close>.
\<close>

definition demo_zap_env :: env where
  "demo_zap_env =
    demo_env\<lparr>relayPool_get := (\<lambda>n rs f. Inr (Some demo_profile)),
             getZapEndpoint := (\<lambda>ev. Inr (Some ''https://pay.example/cb?foo=1''))\<rparr>"

section \<open>The session across sign-out and restart\<close>

lemma valid_hex_key_demo: "valid_hex_key demo_hex"
  by code_simp

lemma demo_key_accepted: "getPublicKey demo_env (Buffer_from_hex demo_hex) = Inr (''pub-'' @ demo_hex)"
  by code_simp

lemma sessionStorage_signOut: "sessionStorage (signOut w) = None"
  by (simp add: signOut_def)

lemma store_signOut: "store (signOut w) = None"
  by (simp add: signOut_def store_set_def persist_def)

lemma store_set_no_privkey:
  "get_privkey v = None \<Longrightarrow> store_set v w = w\<lparr>store := v\<rparr>"
  by (auto simp: get_privkey_def store_set_def persist_def split: option.splits if_splits)

lemma store_set_privkey:
  "truthy p \<Longrightarrow>
   store_set (Some \<lparr>privkey = Some p, pubkey = pk\<rparr>) w =
     w\<lparr>store := Some \<lparr>privkey = Some p, pubkey = pk\<rparr>, sessionStorage := Some p\<rparr>"
  by (simp add: store_set_def persist_def)

lemma valid_hex_key_truthy: "valid_hex_key s \<Longrightarrow> truthy s"
  by (auto simp: valid_hex_key_def truthy_def)

lemma loginWithPrivkey_ok:
  assumes "valid_hex_key hex" and "getPublicKey e (Buffer_from_hex hex) = Inr pk"
  shows "loginWithPrivkey e hex w =
    (Inr (), w\<lparr>store := Some \<lparr>privkey = Some hex, pubkey = pk\<rparr>, sessionStorage := Some hex\<rparr>)"
  using assms by (simp add: loginWithPrivkey_def store_set_privkey valid_hex_key_truthy)

lemma restart_empty_slot:
  "sessionStorage w = None \<Longrightarrow> restart e w = Inr (w\<lparr>store := None, profilesMetadata := []\<rparr>)"
  by (simp add: restart_def nostrAuth_init_def persist_def)

lemma restart_local_key:
  assumes "sessionStorage w = Some p" and "truthy p" and "getPublicKey e (Buffer_from_hex p) = Inr pk"
  shows "restart e w =
    Inr (w\<lparr>store := Some \<lparr>privkey = Some p, pubkey = pk\<rparr>, profilesMetadata := []\<rparr>)"
  using assms by (simp add: restart_def nostrAuth_init_def store_set_privkey)

text \<open>
  C6.  For a valid hex secret key that the key derivation accepts,
  \<^verbatim>\<open>loginWithPrivkey(hex)\<close> succeeds and writes the key to the slot; \<^verbatim>\<open>signOut()\<close> then
  leaves the store \<^verbatim>\<open>null\<close> and the slot empty, and a restart from there succeeds and
  finds both still empty: no session is restored.
\<close>

theorem signOut_then_restart_LoggedOut:
  assumes "valid_hex_key hex" and "getPublicKey e (Buffer_from_hex hex) = Inr pk"
  shows "fst (loginWithPrivkey e hex w) = Inr () \<and>
    sessionStorage (snd (loginWithPrivkey e hex w)) = Some hex \<and>
    store (signOut (snd (loginWithPrivkey e hex w))) = None \<and>
    sessionStorage (signOut (snd (loginWithPrivkey e hex w))) = None \<and>
    (\<exists>w'. restart e (signOut (snd (loginWithPrivkey e hex w))) = Inr w' \<and>
       store w' = None \<and> sessionStorage w' = None)"
  by (simp add: loginWithPrivkey_ok [OF assms] restart_empty_slot
      sessionStorage_signOut store_signOut)

theorem signOut_then_restart_LoggedOut_witness:
  "valid_hex_key demo_hex \<and>
   sessionStorage (snd (loginWithPrivkey demo_env demo_hex world0)) = Some demo_hex \<and>
   (\<exists>w'. restart demo_env (signOut (snd (loginWithPrivkey demo_env demo_hex world0))) = Inr w' \<and>
       store w' = None \<and> sessionStorage w' = None)"
  using signOut_then_restart_LoggedOut [OF valid_hex_key_demo demo_key_accepted, of world0]
    valid_hex_key_demo by simp

text \<open>
  C5.  For a valid hex secret key that the key derivation accepts,
  \<^verbatim>\<open>loginWithPrivkey(hex)\<close> followed by a restart gives back the same store value: the
  same secret with the public key derived again from the slot.  The restart changes
  nothing else but the module's own profile cache, which starts empty, and restarting
  once more changes nothing at all.
\<close>

theorem loginWithPrivkey_restart_restores:
  assumes "valid_hex_key hex" and "getPublicKey e (Buffer_from_hex hex) = Inr pk"
  shows "\<exists>w1 w2. loginWithPrivkey e hex w = (Inr (), w1) \<and>
    store w1 = Some \<lparr>privkey = Some hex, pubkey = pk\<rparr> \<and>
    sessionStorage w1 = Some hex \<and>
    restart e w1 = Inr w2 \<and>
    store w2 = Some \<lparr>privkey = Some hex, pubkey = pk\<rparr> \<and>
    w2 = w1\<lparr>profilesMetadata := []\<rparr> \<and>
    restart e w2 = Inr w2"
proof -
  let ?ks = "\<lparr>privkey = Some hex, pubkey = pk\<rparr>"
  let ?w1 = "w\<lparr>store := Some ?ks, sessionStorage := Some hex\<rparr>"
  let ?w2 = "?w1\<lparr>profilesMetadata := []\<rparr>"
  have t: "truthy hex" using assms(1) by (rule valid_hex_key_truthy)
  have login: "loginWithPrivkey e hex w = (Inr (), ?w1)"
    using assms by (rule loginWithPrivkey_ok)
  have r1: "restart e ?w1 = Inr ?w2"
    using restart_local_key [of ?w1 hex e pk] t assms(2) by simp
  have r2: "restart e ?w2 = Inr ?w2"
    using restart_local_key [of ?w2 hex e pk] t assms(2) by simp
  show ?thesis using login r1 r2 by simp
qed

theorem loginWithPrivkey_restart_restores_witness:
  "valid_hex_key demo_hex \<and>
   (\<exists>w1 w2. loginWithPrivkey demo_env demo_hex world0 = (Inr (), w1) \<and>
      store w1 = Some \<lparr>privkey = Some demo_hex, pubkey = ''pub-'' @ demo_hex\<rparr> \<and>
      restart demo_env w1 = Inr w2 \<and>
      store w2 = Some \<lparr>privkey = Some demo_hex, pubkey = ''pub-'' @ demo_hex\<rparr>)"
proof -
  from loginWithPrivkey_restart_restores [OF valid_hex_key_demo demo_key_accepted, of world0]
  obtain w1 w2 where "loginWithPrivkey demo_env demo_hex world0 = (Inr (), w1)"
    "store w1 = Some \<lparr>privkey = Some demo_hex, pubkey = ''pub-'' @ demo_hex\<rparr>"
    "restart demo_env w1 = Inr w2"
    "store w2 = Some \<lparr>privkey = Some demo_hex, pubkey = ''pub-'' @ demo_hex\<rparr>"
    by blast
  then show ?thesis using valid_hex_key_demo by blast
qed

section \<open>Hex decoding and encoding\<close>

lemma parseInt16_hex_pair:
  assumes "hex_val a = Some x" and "hex_val b = Some y"
  shows "parseInt16 [a, b] = Some (int (16 * x + y))"
proof -
  have a: "\<not> StrWhiteSpaceChar a" "a \<noteq> CHR ''-''" "a \<noteq> CHR ''+''"
    using assms(1) by (auto simp: hex_val_def StrWhiteSpaceChar_def Let_def split: if_splits)
  have b: "b \<noteq> CHR ''x''" "b \<noteq> CHR ''X''"
    using assms(2) by (auto simp: hex_val_def)
  show ?thesis
    using a b assms by (simp add: parseInt16_def hex_num_def)
qed





lemma Buffer_from_hex_append:
  "even (length k) \<Longrightarrow> list_all (\<lambda>c. hex_val c \<noteq> None) k \<Longrightarrow>
   Buffer_from_hex (k @ t) = Buffer_from_hex k @ Buffer_from_hex t"
  by (induction k rule: Buffer_from_hex.induct) (auto simp: parseInt16_hex_pair)

lemma Buffer_from_hex_stops:
  "hex_decoding_stops t \<Longrightarrow> Buffer_from_hex t = []"
  by (cases t rule: Buffer_from_hex.cases) auto

lemma Buffer_from_hex_suffix:
  assumes "valid_hex_key k" and "hex_decoding_stops t"
  shows "Buffer_from_hex (k @ t) = Buffer_from_hex k"
proof -
  have "even (length k)" and "list_all (\<lambda>c. hex_val c \<noteq> None) k"
    using assms(1) by (simp_all add: valid_hex_key_def)
  then show ?thesis
    using assms(2) by (simp add: Buffer_from_hex_append Buffer_from_hex_stops)
qed

section \<open>Logging in: \<^verbatim>\<open>tryLogin\<close>\<close>








text \<open>
  C10.  A \<^verbatim>\<open>tryLogin\<close> that succeeds through the external signer changes the store and
  nothing else: the slot keeps its prior contents, so a restart afterwards is the
  restart from before, and from an empty slot it ends with the store \<^verbatim>\<open>null\<close>.
  In general \<^verbatim>\<open>store.set\<close> leaves the slot alone whenever the new value carries no
  truthy \<^verbatim>\<open>privkey\<close>.
\<close>

theorem tryLogin_external_signer_not_persisted:
  assumes "\<not> has_pubkey (store w)" and "window_nostr e = Some n"
    and "nostr_getPublicKey n = Inr pk"
  shows "tryLogin e w = (Inr True, w\<lparr>store := Some \<lparr>privkey = None, pubkey = pk\<rparr>\<rparr>) \<and>
    sessionStorage (snd (tryLogin e w)) = sessionStorage w \<and>
    restart e (snd (tryLogin e w)) = restart e w \<and>
    (sessionStorage w = None \<longrightarrow>
       restart e (snd (tryLogin e w)) = Inr (w\<lparr>store := None, profilesMetadata := []\<rparr>)) \<and>
    (\<forall>v w'. get_privkey v = None \<longrightarrow> sessionStorage (store_set v w') = sessionStorage w')"
proof -
  have t: "tryLogin e w = (Inr True, w\<lparr>store := Some \<lparr>privkey = None, pubkey = pk\<rparr>\<rparr>)"
    using assms by (simp add: tryLogin_def store_set_def persist_def)
  have r: "restart e (w\<lparr>store := Some \<lparr>privkey = None, pubkey = pk\<rparr>\<rparr>) = restart e w"
    by (simp add: restart_def)
  have f: "\<forall>v w'. get_privkey v = None \<longrightarrow> sessionStorage (store_set v w') = sessionStorage w'"
    by (simp add: store_set_no_privkey)
  show ?thesis using t r f by (simp add: restart_empty_slot)
qed

theorem tryLogin_external_signer_not_persisted_witness:
  "tryLogin (demo_env\<lparr>window_nostr := Some demo_signer\<rparr>) world0 =
     (Inr True, world0\<lparr>store := Some \<lparr>privkey = None, pubkey = ''ext-pubkey''\<rparr>\<rparr>) \<and>
   sessionStorage (snd (tryLogin (demo_env\<lparr>window_nostr := Some demo_signer\<rparr>) world0)) = None \<and>
   restart (demo_env\<lparr>window_nostr := Some demo_signer\<rparr>)
       (snd (tryLogin (demo_env\<lparr>window_nostr := Some demo_signer\<rparr>) world0)) = Inr world0"
proof -
  have np: "\<not> has_pubkey (store world0)"
    by (simp add: has_pubkey_def world0_def)
  have n: "window_nostr (demo_env\<lparr>window_nostr := Some demo_signer\<rparr>) = Some demo_signer"
    by simp
  have g: "nostr_getPublicKey demo_signer = Inr ''ext-pubkey''"
    by (simp add: demo_signer_def)
  have s: "sessionStorage world0 = None" "world0\<lparr>store := None, profilesMetadata := []\<rparr> = world0"
    by (simp_all add: world0_def)
  note th = tryLogin_external_signer_not_persisted [OF np n g]
  have a: "tryLogin (demo_env\<lparr>window_nostr := Some demo_signer\<rparr>) world0 =
     (Inr True, world0\<lparr>store := Some \<lparr>privkey = None, pubkey = ''ext-pubkey''\<rparr>\<rparr>)"
    using th by (rule conjunct1)
  have b: "sessionStorage (snd (tryLogin (demo_env\<lparr>window_nostr := Some demo_signer\<rparr>) world0)) = None"
    using th s(1) by metis
  have c: "restart (demo_env\<lparr>window_nostr := Some demo_signer\<rparr>)
       (snd (tryLogin (demo_env\<lparr>window_nostr := Some demo_signer\<rparr>) world0)) = Inr world0"
    using th s by metis
  show ?thesis using a b c by blast
qed

section \<open>Signing and encrypting without a session\<close>

text \<open>
  C1, as stated, fails.  With the store \<^verbatim>\<open>null\<close> and an external signer present,
  \<^verbatim>\<open>encryptDM\<close> and \<^verbatim>\<open>decryptDM\<close> do not fail at all: they return what the signer
  returns.  \<^verbatim>\<open>makeEvent\<close> fails, with the runtime's \<open>TypeError\<close>.
\<close>

theorem LoggedOut_operations_counterexample:
  "store world0 = None \<and>
   encryptDM (demo_env\<lparr>window_nostr := Some demo_signer\<rparr>) ''P'' ''hi'' world0 =
     Inr ''ext-cipher:hi'' \<and>
   decryptDM (demo_env\<lparr>window_nostr := Some demo_signer\<rparr>) ''P'' ''hi'' world0 =
     Inr ''ext-plain:hi'' \<and>
   makeEvent (demo_env\<lparr>window_nostr := Some demo_signer\<rparr>) 1 ''hi'' [] world0 = Inl TypeError"
  by (simp add: world0_def encryptDM_def decryptDM_def makeEvent_def get_privkey_def
      demo_signer_def)

text \<open>
  C1, amended.  With the store \<^verbatim>\<open>null\<close>, \<^verbatim>\<open>makeEvent\<close> always fails with the
  \<open>TypeError\<close> of destructuring \<^verbatim>\<open>null\<close>; \<^verbatim>\<open>encryptDM\<close> and \<^verbatim>\<open>decryptDM\<close> hand the
  request to \<^verbatim>\<open>window.nostr\<close> and give its outcome when it is present, and fail with
  a \<open>TypeError\<close> when it is absent.
\<close>

theorem LoggedOut_operations:
  assumes "store w = None"
  shows "makeEvent e k c ts w = Inl TypeError \<and>
    encryptDM e p t w =
      (case window_nostr e of None \<Rightarrow> Inl TypeError | Some n \<Rightarrow> nostr_nip04_encrypt n p t) \<and>
    decryptDM e p t w =
      (case window_nostr e of None \<Rightarrow> Inl TypeError | Some n \<Rightarrow> nostr_nip04_decrypt n p t)"
  using assms by (simp add: makeEvent_def encryptDM_def decryptDM_def get_privkey_def)

theorem LoggedOut_operations_witness:
  "store world0 = None \<and>
   makeEvent demo_env 1 ''hi'' [] world0 = Inl TypeError \<and>
   encryptDM demo_env ''P'' ''hi'' world0 = Inl TypeError \<and>
   decryptDM demo_env ''P'' ''hi'' world0 = Inl TypeError"
proof -
  have s: "store world0 = None" by (simp add: world0_def)
  have n: "window_nostr demo_env = None" by (simp add: demo_env_def)
  show ?thesis
    using LoggedOut_operations [OF s, of demo_env 1 "''hi''" "[]" "''P''" "''hi''"] s n
    by simp
qed

section \<open>Logging in with a given key: \<^verbatim>\<open>loginWithPrivkey\<close>\<close>

text \<open>
  C3, as stated, fails.  The string made of the secret key 1 in hex followed by
  \<^verbatim>\<open>zz\<close> is not valid hex of a 32-byte key, yet \<^verbatim>\<open>loginWithPrivkey\<close> succeeds on it:
  the decoding stops at \<^verbatim>\<open>zz\<close> with 32 bytes, and the string goes to the store and
  the slot as it is.
\<close>

theorem loginWithPrivkey_malformed_counterexample:
  "\<not> valid_hex_key (demo_hex @ ''zz'') \<and>
   fst (loginWithPrivkey demo_env (demo_hex @ ''zz'') world0) = Inr () \<and>
   store (snd (loginWithPrivkey demo_env (demo_hex @ ''zz'') world0)) =
     Some \<lparr>privkey = Some (demo_hex @ ''zz''), pubkey = ''pub-'' @ demo_hex\<rparr> \<and>
   sessionStorage (snd (loginWithPrivkey demo_env (demo_hex @ ''zz'') world0)) =
     Some (demo_hex @ ''zz'')"
proof -
  have v: "\<not> valid_hex_key (demo_hex @ ''zz'')"
    by (simp add: valid_hex_key_def demo_hex_def)
  have p: "hex_decoding_stops ''zz''"
    by code_simp
  have d: "Buffer_from_hex (demo_hex @ ''zz'') = Buffer_from_hex demo_hex"
    using valid_hex_key_demo p by (rule Buffer_from_hex_suffix)
  have t: "truthy (demo_hex @ ''zz'')"
    by (simp add: truthy_def)
  show ?thesis
    using v by (simp add: loginWithPrivkey_def d demo_key_accepted store_set_privkey [OF t])
qed

text \<open>
  C3, amended.  \<^verbatim>\<open>loginWithPrivkey\<close> checks nothing itself.  It fails exactly when
  \<^verbatim>\<open>getPublicKey\<close> rejects the bytes that \<^verbatim>\<open>Buffer.from(privkey, 'hex')\<close> yields, with
  that error and with the store and the slot unchanged; when \<^verbatim>\<open>getPublicKey\<close> accepts
  them it succeeds and stores the input string as it is.  The decoding reads pair by
  pair with \<^verbatim>\<open>parseInt(pair, 16)\<close> and ends at the first pair that reads as \<^verbatim>\<open>NaN\<close>: a
  valid hex key followed by a suffix that is shorter than two code units, or whose
  first pair reads as \<^verbatim>\<open>NaN\<close>, decodes to the bytes of the key, so it is accepted or
  rejected as the key itself is.
\<close>

theorem loginWithPrivkey_lenient:
  "(\<forall>err. getPublicKey e (Buffer_from_hex s) = Inl err \<longrightarrow>
      loginWithPrivkey e s w = (Inl err, w)) \<and>
   (\<forall>pk. getPublicKey e (Buffer_from_hex s) = Inr pk \<longrightarrow>
      fst (loginWithPrivkey e s w) = Inr () \<and>
      store (snd (loginWithPrivkey e s w)) = Some \<lparr>privkey = Some s, pubkey = pk\<rparr>) \<and>
   (valid_hex_key k \<and> hex_decoding_stops t \<longrightarrow>
      Buffer_from_hex (k @ t) = Buffer_from_hex k \<and>
      fst (loginWithPrivkey e (k @ t) w) = fst (loginWithPrivkey e k w))"
proof -
  have a: "\<forall>err. getPublicKey e (Buffer_from_hex s) = Inl err \<longrightarrow>
      loginWithPrivkey e s w = (Inl err, w)"
    by (simp add: loginWithPrivkey_def)
  have b: "\<forall>pk. getPublicKey e (Buffer_from_hex s) = Inr pk \<longrightarrow>
      fst (loginWithPrivkey e s w) = Inr () \<and>
      store (snd (loginWithPrivkey e s w)) = Some \<lparr>privkey = Some s, pubkey = pk\<rparr>"
    by (simp add: loginWithPrivkey_def store_set_def persist_def)
  have c: "valid_hex_key k \<and> hex_decoding_stops t \<longrightarrow>
      Buffer_from_hex (k @ t) = Buffer_from_hex k \<and>
      fst (loginWithPrivkey e (k @ t) w) = fst (loginWithPrivkey e k w)"
    by (auto simp: loginWithPrivkey_def Buffer_from_hex_suffix split: sum.splits)
  show ?thesis using a b c by blast
qed

theorem loginWithPrivkey_lenient_witness:
  "loginWithPrivkey demo_env ''abc'' world0 = (Inl (Thrown ''invalid secret key''), world0) \<and>
   length (Buffer_from_hex (demo_hex @ ''0z'')) = 33 \<and>
   loginWithPrivkey demo_env (demo_hex @ ''0z'') world0 =
     (Inl (Thrown ''invalid secret key''), world0) \<and>
   store (snd (loginWithPrivkey demo_env demo_hex world0)) =
     Some \<lparr>privkey = Some demo_hex, pubkey = ''pub-'' @ demo_hex\<rparr> \<and>
   valid_hex_key demo_hex \<and> hex_decoding_stops ''zz'' \<and>
   fst (loginWithPrivkey demo_env (demo_hex @ ''zz'') world0) =
     fst (loginWithPrivkey demo_env demo_hex world0)"
proof -
  have r: "getPublicKey demo_env (Buffer_from_hex ''abc'') = Inl (Thrown ''invalid secret key'')"
    by code_simp
  have l: "length (Buffer_from_hex (demo_hex @ ''0z'')) = 33"
    by code_simp
  have r': "getPublicKey demo_env (Buffer_from_hex (demo_hex @ ''0z'')) =
      Inl (Thrown ''invalid secret key'')"
    using l by (simp add: demo_env_def demo_getPublicKey_def)
  have p: "hex_decoding_stops ''zz''"
    by code_simp
  show ?thesis
    using loginWithPrivkey_lenient [of demo_env "''abc''" world0 demo_hex "''zz''"]
      loginWithPrivkey_lenient [of demo_env "demo_hex @ ''0z''" world0 demo_hex "''zz''"]
      loginWithPrivkey_lenient [of demo_env demo_hex world0 demo_hex "''zz''"]
      r r' l p demo_key_accepted valid_hex_key_demo
    by blast
qed

section \<open>Resolving a profile twice\<close>

lemma getProfileMetadata_hit:
  "find (\<lambda>profile. ev_pubkey profile = k) (profilesMetadata w) = Some p \<Longrightarrow>
   getProfileMetadata e k w = (Some p, w)"
  by (simp add: getProfileMetadata_def)

lemma find_append_new:
  "find P xs = None \<Longrightarrow> P x \<Longrightarrow> find P (xs @ [x]) = Some x"
  by (induction xs) (auto split: if_splits)

lemma getProfileMetadata_frame:
  "http_requests (snd (getProfileMetadata e k w)) = http_requests w \<and>
   json_calls (snd (getProfileMetadata e k w)) = json_calls w \<and>
   sessionStorage (snd (getProfileMetadata e k w)) = sessionStorage w \<and>
   store (snd (getProfileMetadata e k w)) = store w"
  by (simp add: getProfileMetadata_def Let_def split: option.splits sum.splits)

text \<open>
  C7, as stated, fails.  For a key whose metadata no relay has, nothing is cached, and
  two calls in succession ask the relay pool twice.
\<close>

theorem getProfileMetadata_twice_counterexample:
  "fst (getProfileMetadata demo_env ''P'' world0) = None \<and>
   fst (getProfileMetadata demo_env ''P'' (snd (getProfileMetadata demo_env ''P'' world0))) = None \<and>
   relay_queries
     (snd (getProfileMetadata demo_env ''P'' (snd (getProfileMetadata demo_env ''P'' world0)))) =
     [''P'', ''P'']"
  by (simp add: getProfileMetadata_def demo_env_def world0_def)

text \<open>
  C7, amended.  When the key is not cached and the relay pool answers the first call
  with an event of that author, the event is cached, the second call returns it from
  the cache, and the two calls ask the relay pool once.  When the key is cached already,
  both calls return the cached event and ask nothing.  When the relay pool answers
  \<^verbatim>\<open>null\<close> or throws, the call returns \<^verbatim>\<open>null\<close>, caches nothing, and has asked once.
  Every call that misses the cache asks the relay pool once, so after such a failure
  the next call for the key asks again.
\<close>

theorem getProfileMetadata_twice:
  "(find (\<lambda>profile. ev_pubkey profile = k) (profilesMetadata w) = None \<and>
    relayPool_get e (length (relay_queries w)) relayList
      \<lparr>kinds = [Metadata], authors = [k], limit = 1\<rparr> = Inr (Some ev) \<and>
    ev_pubkey ev = k \<longrightarrow>
      fst (getProfileMetadata e k w) = Some ev \<and>
      getProfileMetadata e k (snd (getProfileMetadata e k w)) =
        (Some ev, snd (getProfileMetadata e k w)) \<and>
      profilesMetadata (snd (getProfileMetadata e k w)) = profilesMetadata w @ [ev] \<and>
      relay_queries (snd (getProfileMetadata e k w)) = relay_queries w @ [k]) \<and>
   (\<forall>p. find (\<lambda>profile. ev_pubkey profile = k) (profilesMetadata w) = Some p \<longrightarrow>
      getProfileMetadata e k w = (Some p, w)) \<and>
   (find (\<lambda>profile. ev_pubkey profile = k) (profilesMetadata w) = None \<and>
    (relayPool_get e (length (relay_queries w)) relayList
       \<lparr>kinds = [Metadata], authors = [k], limit = 1\<rparr> = Inr None \<or>
     (\<exists>err. relayPool_get e (length (relay_queries w)) relayList
       \<lparr>kinds = [Metadata], authors = [k], limit = 1\<rparr> = Inl err)) \<longrightarrow>
      fst (getProfileMetadata e k w) = None \<and>
      profilesMetadata (snd (getProfileMetadata e k w)) = profilesMetadata w \<and>
      relay_queries (snd (getProfileMetadata e k w)) = relay_queries w @ [k]) \<and>
   (find (\<lambda>profile. ev_pubkey profile = k) (profilesMetadata w) = None \<longrightarrow>
      relay_queries (snd (getProfileMetadata e k w)) = relay_queries w @ [k])"
proof -
  have a: "find (\<lambda>profile. ev_pubkey profile = k) (profilesMetadata w) = None \<and>
    relayPool_get e (length (relay_queries w)) relayList
      \<lparr>kinds = [Metadata], authors = [k], limit = 1\<rparr> = Inr (Some ev) \<and>
    ev_pubkey ev = k \<longrightarrow>
      fst (getProfileMetadata e k w) = Some ev \<and>
      getProfileMetadata e k (snd (getProfileMetadata e k w)) =
        (Some ev, snd (getProfileMetadata e k w)) \<and>
      profilesMetadata (snd (getProfileMetadata e k w)) = profilesMetadata w @ [ev] \<and>
      relay_queries (snd (getProfileMetadata e k w)) = relay_queries w @ [k]"
  proof
    assume h: "find (\<lambda>profile. ev_pubkey profile = k) (profilesMetadata w) = None \<and>
      relayPool_get e (length (relay_queries w)) relayList
        \<lparr>kinds = [Metadata], authors = [k], limit = 1\<rparr> = Inr (Some ev) \<and>
      ev_pubkey ev = k"
    let ?w1 = "w\<lparr>relay_queries := relay_queries w @ [k],
                 profilesMetadata := profilesMetadata w @ [ev]\<rparr>"
    have first: "getProfileMetadata e k w = (Some ev, ?w1)"
      using h by (simp add: getProfileMetadata_def)
    have "find (\<lambda>profile. ev_pubkey profile = k) (profilesMetadata ?w1) = Some ev"
      using h by (simp add: find_append_new)
    then have second: "getProfileMetadata e k ?w1 = (Some ev, ?w1)"
      by (rule getProfileMetadata_hit)
    show "fst (getProfileMetadata e k w) = Some ev \<and>
      getProfileMetadata e k (snd (getProfileMetadata e k w)) =
        (Some ev, snd (getProfileMetadata e k w)) \<and>
      profilesMetadata (snd (getProfileMetadata e k w)) = profilesMetadata w @ [ev] \<and>
      relay_queries (snd (getProfileMetadata e k w)) = relay_queries w @ [k]"
      using first second by simp
  qed
  have b: "\<forall>p. find (\<lambda>profile. ev_pubkey profile = k) (profilesMetadata w) = Some p \<longrightarrow>
      getProfileMetadata e k w = (Some p, w)"
    by (simp add: getProfileMetadata_hit)
  have c: "find (\<lambda>profile. ev_pubkey profile = k) (profilesMetadata w) = None \<and>
    (relayPool_get e (length (relay_queries w)) relayList
       \<lparr>kinds = [Metadata], authors = [k], limit = 1\<rparr> = Inr None \<or>
     (\<exists>err. relayPool_get e (length (relay_queries w)) relayList
       \<lparr>kinds = [Metadata], authors = [k], limit = 1\<rparr> = Inl err)) \<longrightarrow>
      fst (getProfileMetadata e k w) = None \<and>
      profilesMetadata (snd (getProfileMetadata e k w)) = profilesMetadata w \<and>
      relay_queries (snd (getProfileMetadata e k w)) = relay_queries w @ [k]"
    by (auto simp: getProfileMetadata_def)
  have d: "find (\<lambda>profile. ev_pubkey profile = k) (profilesMetadata w) = None \<longrightarrow>
      relay_queries (snd (getProfileMetadata e k w)) = relay_queries w @ [k]"
    by (simp add: getProfileMetadata_def Let_def split: sum.splits option.splits)
  show ?thesis using a b c d by blast
qed

lemma demo_zap_finds_profile:
  "find (\<lambda>profile. ev_pubkey profile = ''P'') (profilesMetadata world0) = None \<and>
   relayPool_get demo_zap_env (length (relay_queries world0)) relayList
     \<lparr>kinds = [Metadata], authors = [''P''], limit = 1\<rparr> = Inr (Some demo_profile) \<and>
   ev_pubkey demo_profile = ''P''"
  by (simp add: demo_zap_env_def world0_def demo_profile_def)

theorem getProfileMetadata_twice_witness:
  "fst (getProfileMetadata demo_zap_env ''P'' world0) = Some demo_profile \<and>
   fst (getProfileMetadata demo_zap_env ''P'' (snd (getProfileMetadata demo_zap_env ''P'' world0))) =
     Some demo_profile \<and>
   relay_queries
     (snd (getProfileMetadata demo_zap_env ''P'' (snd (getProfileMetadata demo_zap_env ''P'' world0)))) =
     [''P'']"
proof -
  have q: "relay_queries world0 = []" by (simp add: world0_def)
  show ?thesis
    using getProfileMetadata_twice [of "''P''" world0 demo_zap_env demo_profile]
      demo_zap_finds_profile q
    by simp
qed

section \<open>The zap invoice flow\<close>

lemma getProfileMetadata_frame_pair:
  "getProfileMetadata e k w = (r, w1) \<Longrightarrow>
   http_requests w1 = http_requests w \<and> json_calls w1 = json_calls w"
  using getProfileMetadata_frame [of e k w] by simp

lemma createInvoice_url_frame:
  "createInvoice_url e dest msg amt eid w = (r, w1) \<Longrightarrow>
   http_requests w1 = http_requests w \<and> json_calls w1 = json_calls w"
  by (auto simp: createInvoice_url_def
      split: sum.splits prod.splits option.splits if_splits
      dest: getProfileMetadata_frame_pair)

lemma createInvoice_url_value:
  assumes "nip19_decode e dest = Inr k"
    and "getProfileMetadata e k w = (Some pm, w1)"
    and "getZapEndpoint e pm = Inr (Some ep)" and "truthy ep"
    and "makeZapRequest (Date_now e) k eid amt relayList msg = Inr zr"
    and "URL_parse e ep = Inr cu"
  shows "createInvoice_url e dest msg amt eid w =
    (Inr (protocol cu @ ''//'' @ host cu @ pathname cu @ ''?''
          @ URLSearchParams_toString (invoice_params cu msg amt (JSON_stringify e zr))), w1)"
  using assms by (simp add: createInvoice_url_def)

lemma Number_toString_1000: "Number_toString 1000 = ''1000''"
  by (simp add: Number_toString_def digits.simps hex_digit_def)

lemma Number_toString_1000000: "Number_toString 1000000 = ''1000000''"
  by (simp add: Number_toString_def digits.simps hex_digit_def)

lemma not_index_keys:
  "\<not> is_index_key ''foo''" "\<not> is_index_key ''comment''" "\<not> is_index_key ''amount''"
  "\<not> is_index_key ''nostr''"
  by (simp_all add: is_index_key_def is_digit_def)

lemma form_urlencode_plain:
  "form_urlencode ''foo'' = ''foo''" "form_urlencode ''1'' = ''1''"
  "form_urlencode ''comment'' = ''comment''" "form_urlencode ''gm'' = ''gm''"
  "form_urlencode ''amount'' = ''amount''" "form_urlencode ''1000000'' = ''1000000''"
  "form_urlencode ''nostr'' = ''nostr''"
  by (simp_all add: form_urlencode_def form_urlencode_char_def)

lemma scenario_params:
  "invoice_params
     \<lparr>protocol = ''https:'', host = ''pay.example'', pathname = ''/cb'',
      searchParams = [(''foo'', ''1'')]\<rparr> ''gm'' 1000 z =
   [(''foo'', ''1''), (''comment'', ''gm''), (''amount'', ''1000000''), (''nostr'', z)]"
  by (simp add: invoice_params_def Object_fromEntries_def Object_entries_def
      Number_toString_1000000 not_index_keys)

lemma scenario_query:
  "URLSearchParams_toString
     [(''foo'', ''1''), (''comment'', ''gm''), (''amount'', ''1000000''), (''nostr'', z)] =
   ''foo=1&comment=gm&amount=1000000&nostr='' @ form_urlencode z"
  by (simp add: URLSearchParams_toString_def form_urlencode_plain)

lemma scenario_zap_request:
  "truthy P \<Longrightarrow>
   makeZapRequest now P ''abc123'' 1000 relayList ''gm'' =
     Inr \<lparr>kind = 9734, content = ''gm'', created_at = (now + 500) div 1000,
          tags = [[''p'', P], [''amount'', ''1000''], ''relays'' # relayList, [''e'', ''abc123'']]\<rparr>"
  by (simp add: makeZapRequest_def Number_toString_1000 truthy_def)

lemma scenario_url:
  assumes "nip19_decode e dest = Inr P" and "truthy P"
    and "getProfileMetadata e P w = (Some pm, w1)"
    and "getZapEndpoint e pm = Inr (Some ''https://pay.example/cb?foo=1'')"
    and "URL_parse e ''https://pay.example/cb?foo=1'' =
      Inr \<lparr>protocol = ''https:'', host = ''pay.example'', pathname = ''/cb'',
           searchParams = [(''foo'', ''1'')]\<rparr>"
  shows "createInvoice_url e dest ''gm'' 1000 ''abc123'' w =
    (Inr (''https://pay.example/cb?foo=1&comment=gm&amount=1000000&nostr=''
          @ form_urlencode (JSON_stringify e
              \<lparr>kind = 9734, content = ''gm'', created_at = (Date_now e + 500) div 1000,
               tags = [[''p'', P], [''amount'', ''1000''], ''relays'' # relayList,
                       [''e'', ''abc123'']]\<rparr>)), w1)"
proof -
  have t: "truthy ''https://pay.example/cb?foo=1''" by (simp add: truthy_def)
  show ?thesis
    using createInvoice_url_value
      [OF assms(1) assms(3) assms(4) t scenario_zap_request [OF assms(2)] assms(5)]
    by (simp add: scenario_params scenario_query)
qed

lemma demo_scenario:
  "nip19_decode demo_zap_env ''npub1demo'' = Inr ''P''" "truthy ''P''"
  "getProfileMetadata demo_zap_env ''P'' world0 =
     (Some demo_profile,
      world0\<lparr>relay_queries := [''P''], profilesMetadata := [demo_profile]\<rparr>)"
  "getZapEndpoint demo_zap_env demo_profile = Inr (Some ''https://pay.example/cb?foo=1'')"
  "URL_parse demo_zap_env ''https://pay.example/cb?foo=1'' =
      Inr \<lparr>protocol = ''https:'', host = ''pay.example'', pathname = ''/cb'',
           searchParams = [(''foo'', ''1'')]\<rparr>"
  by (simp_all add: demo_zap_env_def demo_env_def truthy_def getProfileMetadata_def
      world0_def demo_url_def)

text \<open>
  C2.  In the scenario of the claim (the recipient decodes to a key \<open>P\<close> whose profile
  resolves to \<^verbatim>\<open>https://pay.example/cb?foo=1\<close>, amount 1000, comment \<^verbatim>\<open>gm\<close>, event id
  \<^verbatim>\<open>abc123\<close>) the URL that is fetched has the query \<^verbatim>\<open>foo=1\<close>, \<^verbatim>\<open>comment=gm\<close>,
  \<^verbatim>\<open>amount=1000000\<close> and \<^verbatim>\<open>nostr\<close>, the serialised zap request.  The zap request has a
  tag for the event \<^verbatim>\<open>abc123\<close>, but the amount it carries is 1000, the amount as it
  was passed in, and not the 1000000 of the query: line 215 hands \<^verbatim>\<open>amount\<close> to
  \<^verbatim>\<open>makeZapRequest\<close> without the conversion that line 225 does.
\<close>

theorem createInvoice_scenario_zap_amount:
  assumes "nip19_decode e dest = Inr P" and "truthy P"
    and "getProfileMetadata e P w = (Some pm, w1)"
    and "getZapEndpoint e pm = Inr (Some ''https://pay.example/cb?foo=1'')"
    and "URL_parse e ''https://pay.example/cb?foo=1'' =
      Inr \<lparr>protocol = ''https:'', host = ''pay.example'', pathname = ''/cb'',
           searchParams = [(''foo'', ''1'')]\<rparr>"
  shows "\<exists>zr. makeZapRequest (Date_now e) P ''abc123'' 1000 relayList ''gm'' = Inr zr \<and>
    createInvoice_url e dest ''gm'' 1000 ''abc123'' w =
      (Inr (''https://pay.example/cb?foo=1&comment=gm&amount=1000000&nostr=''
            @ form_urlencode (JSON_stringify e zr)), w1) \<and>
    tags zr = [[''p'', P], [''amount'', ''1000''], ''relays'' # relayList, [''e'', ''abc123'']] \<and>
    [''amount'', ''1000000''] \<notin> set (tags zr)"
  using scenario_url [OF assms] scenario_zap_request [OF assms(2), of "Date_now e"]
  by (simp add: relayList_def)

theorem createInvoice_scenario_zap_amount_witness:
  "\<exists>zr. makeZapRequest (Date_now demo_zap_env) ''P'' ''abc123'' 1000 relayList ''gm'' = Inr zr \<and>
    fst (createInvoice_url demo_zap_env ''npub1demo'' ''gm'' 1000 ''abc123'' world0) =
      Inr (''https://pay.example/cb?foo=1&comment=gm&amount=1000000&nostr=''
            @ form_urlencode (JSON_stringify demo_zap_env zr)) \<and>
    tags zr = [[''p'', ''P''], [''amount'', ''1000''], ''relays'' # relayList, [''e'', ''abc123'']]"
proof -
  from createInvoice_scenario_zap_amount [OF demo_scenario]
  obtain zr where "makeZapRequest (Date_now demo_zap_env) ''P'' ''abc123'' 1000 relayList ''gm'' = Inr zr"
    "createInvoice_url demo_zap_env ''npub1demo'' ''gm'' 1000 ''abc123'' world0 =
      (Inr (''https://pay.example/cb?foo=1&comment=gm&amount=1000000&nostr=''
            @ form_urlencode (JSON_stringify demo_zap_env zr)),
       world0\<lparr>relay_queries := [''P''], profilesMetadata := [demo_profile]\<rparr>)"
    "tags zr = [[''p'', ''P''], [''amount'', ''1000''], ''relays'' # relayList, [''e'', ''abc123'']]"
    by blast
  then show ?thesis by auto
qed

text \<open>
  C8.  When the recipient decodes and its profile resolves, but \<^verbatim>\<open>getZapEndpoint\<close>
  gives no endpoint (\<^verbatim>\<open>null\<close> or the empty string), \<^verbatim>\<open>createInvoice\<close> fails with the
  error named \<^verbatim>\<open>ZapEndpoint\<close>, logs it, and has fetched nothing.
\<close>

theorem createInvoice_no_endpoint:
  assumes "nip19_decode e dest = Inr k"
    and "getProfileMetadata e k w = (Some pm, w1)"
    and "getZapEndpoint e pm = Inr None \<or> getZapEndpoint e pm = Inr (Some [])"
  shows "createInvoice e dest msg amt eid w =
      (Inl ZapEndpoint,
       w1\<lparr>console_errors := console_errors w1 @ [(''Unable to create invoice'', ZapEndpoint)]\<rparr>) \<and>
    http_requests (snd (createInvoice e dest msg amt eid w)) = http_requests w"
proof -
  have u: "createInvoice_url e dest msg amt eid w = (Inl ZapEndpoint, w1)"
    using assms by (auto simp: createInvoice_url_def truthy_def)
  have h: "http_requests w1 = http_requests w"
    using assms(2) by (simp add: getProfileMetadata_frame_pair)
  show ?thesis
    using u h by (simp add: createInvoice_def createInvoice_try_def)
qed

theorem createInvoice_no_endpoint_witness:
  "fst (createInvoice (demo_zap_env\<lparr>getZapEndpoint := (\<lambda>ev. Inr None)\<rparr>)
          ''npub1demo'' ''gm'' 1000 ''abc123'' world0) = Inl ZapEndpoint \<and>
   http_requests (snd (createInvoice (demo_zap_env\<lparr>getZapEndpoint := (\<lambda>ev. Inr None)\<rparr>)
          ''npub1demo'' ''gm'' 1000 ''abc123'' world0)) = []"
proof -
  let ?e = "demo_zap_env\<lparr>getZapEndpoint := (\<lambda>ev. Inr None)\<rparr>"
  have d: "nip19_decode ?e ''npub1demo'' = Inr ''P''"
    by (simp add: demo_zap_env_def demo_env_def)
  have p: "getProfileMetadata ?e ''P'' world0 =
     (Some demo_profile,
      world0\<lparr>relay_queries := [''P''], profilesMetadata := [demo_profile]\<rparr>)"
    by (simp add: demo_zap_env_def demo_env_def getProfileMetadata_def world0_def)
  have z: "getZapEndpoint ?e demo_profile = Inr None \<or>
      getZapEndpoint ?e demo_profile = Inr (Some [])"
    by simp
  have h: "http_requests world0 = []" by (simp add: world0_def)
  show ?thesis
    using createInvoice_no_endpoint [OF d p z, of "''gm''" 1000 "''abc123''"] h by simp
qed

text \<open>
  C9.  When the stages before the request succeed and the invoice endpoint answers
  with a status outside 200 to 299, \<^verbatim>\<open>createInvoice\<close> fails with the error named
  \<^verbatim>\<open>InvoiceRequest\<close>: the URL was fetched, the error was logged and thrown again, and
  \<^verbatim>\<open>.json()\<close> was never called.
\<close>

theorem createInvoice_http_failure:
  assumes "createInvoice_url e dest msg amt eid w = (Inr u, w1)"
    and "fetch e u = Inr r" and "\<not> ok r"
  shows "createInvoice e dest msg amt eid w =
      (Inl InvoiceRequest,
       w1\<lparr>http_requests := http_requests w1 @ [u],
          console_errors := console_errors w1 @ [(''Unable to create invoice'', InvoiceRequest)]\<rparr>) \<and>
    json_calls (snd (createInvoice e dest msg amt eid w)) = json_calls w"
proof -
  have j: "json_calls w1 = json_calls w"
    using assms(1) by (simp add: createInvoice_url_frame)
  show ?thesis
    using assms j by (simp add: createInvoice_def createInvoice_try_def)
qed

theorem createInvoice_http_failure_witness:
  "fst (createInvoice demo_zap_env ''npub1demo'' ''gm'' 1000 ''abc123'' world0) = Inl InvoiceRequest \<and>
   json_calls (snd (createInvoice demo_zap_env ''npub1demo'' ''gm'' 1000 ''abc123'' world0)) = 0 \<and>
   length (http_requests (snd (createInvoice demo_zap_env ''npub1demo'' ''gm'' 1000 ''abc123'' world0))) = 1 \<and>
   console_errors (snd (createInvoice demo_zap_env ''npub1demo'' ''gm'' 1000 ''abc123'' world0)) =
     [(''Unable to create invoice'', InvoiceRequest)]"
proof -
  let ?r = "\<lparr>status = 500, json = Inl (Thrown ''Unexpected token'')\<rparr>"
  have f: "\<And>u. fetch demo_zap_env u = Inr ?r"
    by (simp add: demo_zap_env_def demo_env_def)
  have n: "\<not> ok ?r" by (simp add: ok_def)
  have w: "json_calls world0 = 0" "http_requests world0 = []" "console_errors world0 = []"
    by (simp_all add: world0_def)
  show ?thesis
    using createInvoice_http_failure [OF scenario_url [OF demo_scenario] f n] w by simp
qed

end
